theory Spec2Isabelle
  imports Main "HOL-Library.Char_ord" "HOL-Library.List_Lexorder"
begin

section \<open>Errors and results\<close>

text \<open>
  The JSON helpers of \<^verbatim>\<open>phylib/utils/_misc.py\<close> are embedded as total functions.
  Every exception the Python code can raise is a value of \<open>error\<close>; a function that may
  raise returns \<open>error + 'a\<close>, with \<open>Inl\<close> for the exception.  \<open>OutsideModel\<close>
  marks inputs whose behaviour this development does not describe (float literals in a
  text to decode, code points above 255, NumPy dtype aliases): it is never the name of a Python exception,
  and no statement below reads it as one.
\<close>

datatype error =
    AssertionError
  | TypeError
  | ValueError
  | KeyError
  | IOError
  | UnboundLocalError
  | JSONDecodeError
  | BinasciiError
  | OutsideModel

definition bind :: "error + 'a \<Rightarrow> ('a \<Rightarrow> error + 'b) \<Rightarrow> error + 'b" where
  "bind m f = (case m of Inl e \<Rightarrow> Inl e | Inr x \<Rightarrow> f x)"

definition cons_res :: "'a \<Rightarrow> error + 'a list \<Rightarrow> error + 'a list" where
  "cons_res x m = (case m of Inl e \<Rightarrow> Inl e | Inr xs \<Rightarrow> Inr (x # xs))"

fun map_res :: "('a \<Rightarrow> error + 'b) \<Rightarrow> 'a list \<Rightarrow> error + 'b list" where
  "map_res f [] = Inr []"
| "map_res f (x # xs) =
     (case f x of Inl e \<Rightarrow> Inl e | Inr y \<Rightarrow> cons_res y (map_res f xs))"

section \<open>Python strings, integers and bytes\<close>

text \<open>
  A Python \<open>str\<close> is modelled as a \<open>string\<close> whose characters are the code points
  0..255 (Latin-1); a Python \<open>bytes\<close> object is a \<open>string\<close> of its bytes.  Python's
  \<open>int\<close> is unbounded, hence \<open>int\<close>.
\<close>

type_synonym bytes = string

definition is_ascii_digit :: "char \<Rightarrow> bool" where
  "is_ascii_digit c = (CHR ''0'' \<le> c \<and> c \<le> CHR ''9'')"

text \<open>
  \<^verbatim>\<open>str.isdigit\<close>: true when the string is not empty and every character has the
  Unicode property Digit.  Below 256 these are \<open>0\<close>..\<open>9\<close> and the superscripts
  U+00B2, U+00B3 and U+00B9.
\<close>

definition char_isdigit :: "char \<Rightarrow> bool" where
  "char_isdigit c = (is_ascii_digit c \<or> c = CHR 0xB2 \<or> c = CHR 0xB3 \<or> c = CHR 0xB9)"

definition py_isdigit :: "string \<Rightarrow> bool" where
  "py_isdigit s = (s \<noteq> [] \<and> list_all char_isdigit s)"

definition digit_val :: "char \<Rightarrow> nat" where
  "digit_val c = of_char c - 48"

definition digit_chr :: "nat \<Rightarrow> char" where
  "digit_chr d = char_of (48 + d)"

definition nat_of_digits :: "string \<Rightarrow> nat" where
  "nat_of_digits s = foldl (\<lambda>acc c. 10 * acc + digit_val c) 0 s"

text \<open>
  \<^verbatim>\<open>int(s)\<close> for a string of digits.  The superscript digits pass \<^verbatim>\<open>isdigit\<close>
  but are no decimal literal: \<^verbatim>\<open>int\<close> raises \<^verbatim>\<open>ValueError\<close> on them.  (The only
  caller passes strings that satisfy \<^verbatim>\<open>isdigit\<close>, so signs, blanks and underscores
  need no case.)
\<close>

definition py_int :: "string \<Rightarrow> error + int" where
  "py_int s =
     (if s \<noteq> [] \<and> list_all is_ascii_digit s then Inr (int (nat_of_digits s))
      else Inl ValueError)"

fun digits_of_nat :: "nat \<Rightarrow> string" where
  "digits_of_nat n =
     (if n < 10 then [digit_chr n] else digits_of_nat (n div 10) @ [digit_chr (n mod 10)])"

declare digits_of_nat.simps [simp del]

text \<open>\<^verbatim>\<open>str(i)\<close> for an integer: its decimal literal.\<close>

definition py_str :: "int \<Rightarrow> string" where
  "py_str i = (if i < 0 then CHR ''-'' # digits_of_nat (nat (- i)) else digits_of_nat (nat i))"

section \<open>base64\<close>

definition b64_alphabet :: string where
  "b64_alphabet = ''ABCDEFGHIJKLMNOPQRSTUVWXYZabcdefghijklmnopqrstuvwxyz0123456789+/''"

definition b64_chr :: "nat \<Rightarrow> char" where
  "b64_chr n = b64_alphabet ! n"

fun index_of :: "'a \<Rightarrow> 'a list \<Rightarrow> nat option" where
  "index_of x [] = None"
| "index_of x (y # ys) =
     (if x = y then Some 0 else (case index_of x ys of None \<Rightarrow> None | Some i \<Rightarrow> Some (Suc i)))"

definition b64_val :: "char \<Rightarrow> nat option" where
  "b64_val c = index_of c b64_alphabet"

text \<open>
  \<^verbatim>\<open>base64.b64encode\<close>: three bytes become four characters of the alphabet; a last
  group of one or two bytes is padded with \<open>=\<close>.
\<close>

fun b64encode :: "bytes \<Rightarrow> string" where
  "b64encode [] = []"
| "b64encode [a] =
     [b64_chr (of_char a div 4), b64_chr ((of_char a mod 4) * 16), CHR ''='', CHR ''='']"
| "b64encode [a, b] =
     [b64_chr (of_char a div 4), b64_chr ((of_char a mod 4) * 16 + of_char b div 16),
      b64_chr ((of_char b mod 16) * 4), CHR ''='']"
| "b64encode (a # b # c # rest) =
     [b64_chr (of_char a div 4), b64_chr ((of_char a mod 4) * 16 + of_char b div 16),
      b64_chr ((of_char b mod 16) * 4 + of_char c div 64), b64_chr (of_char c mod 64)]
     @ b64encode rest"

text \<open>
  \<^verbatim>\<open>binascii.a2b_base64\<close> in its default (non-strict) mode, as CPython 3.8 and later
  write it: the loop keeps the position in the current group of four (\<open>quad_pos\<close>), the
  bits left over (\<open>leftchar\<close>) and the number of pad characters seen (\<open>pads\<close>).
  Characters outside the alphabet are skipped; a complete pad sequence ends the input;
  an incomplete last group is \<^verbatim>\<open>binascii.Error\<close>.
\<close>

fun a2b_base64 :: "nat \<Rightarrow> nat \<Rightarrow> nat \<Rightarrow> string \<Rightarrow> error + bytes" where
  "a2b_base64 quad_pos leftchar pads [] =
     (if quad_pos \<noteq> 0 then Inl BinasciiError else Inr [])"
| "a2b_base64 quad_pos leftchar pads (c # cs) =
     (if c = CHR ''='' then
        (if 2 \<le> quad_pos \<and> 4 \<le> quad_pos + (pads + 1) then Inr []
         else a2b_base64 quad_pos leftchar (if 2 \<le> quad_pos then pads + 1 else pads) cs)
      else
        (case b64_val c of
           None \<Rightarrow> a2b_base64 quad_pos leftchar pads cs
         | Some v \<Rightarrow>
             (if quad_pos = 0 then a2b_base64 1 v 0 cs
              else if quad_pos = 1 then
                cons_res (char_of (leftchar * 4 + v div 16)) (a2b_base64 2 (v mod 16) 0 cs)
              else if quad_pos = 2 then
                cons_res (char_of (leftchar * 16 + v div 4)) (a2b_base64 3 (v mod 4) 0 cs)
              else
                cons_res (char_of (leftchar * 64 + v)) (a2b_base64 0 0 0 cs))))"

text \<open>
  \<^verbatim>\<open>base64.b64decode(s)\<close> for a \<open>str\<close>: the string is first encoded as ASCII
  (\<^verbatim>\<open>ValueError\<close> when it holds another character), then handed to
  \<^verbatim>\<open>a2b_base64\<close>.
\<close>

definition b64decode :: "string \<Rightarrow> error + bytes" where
  "b64decode s =
     (if list_all (\<lambda>c. (of_char c :: nat) < 128) s then a2b_base64 0 0 0 s
      else Inl ValueError)"

text \<open>
  Qt's \<^verbatim>\<open>QByteArray.toBase64\<close> is the same padded encoding.
  \<^verbatim>\<open>QByteArray.fromBase64\<close> never fails: it collects six bits per alphabet
  character, emits a byte whenever eight are available and skips everything else.
\<close>

fun qt_fromBase64_loop :: "nat \<Rightarrow> nat \<Rightarrow> string \<Rightarrow> bytes" where
  "qt_fromBase64_loop buf nbits [] = []"
| "qt_fromBase64_loop buf nbits (c # cs) =
     (case b64_val c of
        None \<Rightarrow> qt_fromBase64_loop buf nbits cs
      | Some d \<Rightarrow>
          (let buf' = buf * 64 + d; nbits' = nbits + 6 in
           if 8 \<le> nbits' then
             char_of (buf' div 2 ^ (nbits' - 8))
               # qt_fromBase64_loop (buf' mod 2 ^ (nbits' - 8)) (nbits' - 8) cs
           else qt_fromBase64_loop buf' nbits' cs))"

definition qt_fromBase64 :: "bytes \<Rightarrow> bytes" where
  "qt_fromBase64 b = qt_fromBase64_loop 0 0 b"

definition qt_toBase64 :: "bytes \<Rightarrow> bytes" where
  "qt_toBase64 b = b64encode b"

section \<open>NumPy arrays\<close>

text \<open>
  The numeric dtypes: signed and unsigned integers and the binary floats, in native
  (little-endian) byte order.  \<open>dtype_str\<close> is \<^verbatim>\<open>str(dtype)\<close>, \<open>np_dtype\<close> reads
  such a name back (\<^verbatim>\<open>np.dtype(name)\<close>); other names NumPy understands are outside
  the model.
\<close>

datatype dtype =
    DInt8 | DInt16 | DInt32 | DInt64
  | DUInt8 | DUInt16 | DUInt32 | DUInt64
  | DFloat16 | DFloat32 | DFloat64

fun dtype_str :: "dtype \<Rightarrow> string" where
  "dtype_str DInt8 = ''int8''"
| "dtype_str DInt16 = ''int16''"
| "dtype_str DInt32 = ''int32''"
| "dtype_str DInt64 = ''int64''"
| "dtype_str DUInt8 = ''uint8''"
| "dtype_str DUInt16 = ''uint16''"
| "dtype_str DUInt32 = ''uint32''"
| "dtype_str DUInt64 = ''uint64''"
| "dtype_str DFloat16 = ''float16''"
| "dtype_str DFloat32 = ''float32''"
| "dtype_str DFloat64 = ''float64''"

fun itemsize :: "dtype \<Rightarrow> nat" where
  "itemsize DInt8 = 1"
| "itemsize DInt16 = 2"
| "itemsize DInt32 = 4"
| "itemsize DInt64 = 8"
| "itemsize DUInt8 = 1"
| "itemsize DUInt16 = 2"
| "itemsize DUInt32 = 4"
| "itemsize DUInt64 = 8"
| "itemsize DFloat16 = 2"
| "itemsize DFloat32 = 4"
| "itemsize DFloat64 = 8"

definition all_dtypes :: "dtype list" where
  "all_dtypes =
     [DInt8, DInt16, DInt32, DInt64, DUInt8, DUInt16, DUInt32, DUInt64,
      DFloat16, DFloat32, DFloat64]"

definition np_dtype :: "string \<Rightarrow> dtype option" where
  "np_dtype name = map_of (map (\<lambda>d. (dtype_str d, d)) all_dtypes) name"

text \<open>
  An array is its dtype, its shape and the bytes of its elements in row-major order,
  which is what \<^verbatim>\<open>np.ascontiguousarray(obj).data\<close> exposes whatever the strides
  of \<open>obj\<close> are.  A well-formed array holds \<open>itemsize\<close> bytes for each element.
\<close>

record ndarray =
  dtype :: dtype
  shape :: "nat list"
  data :: bytes

definition ndim :: "ndarray \<Rightarrow> nat" where
  "ndim a = length (shape a)"

definition array_size :: "ndarray \<Rightarrow> nat" where
  "array_size a = prod_list (shape a)"

definition wf_ndarray :: "ndarray \<Rightarrow> bool" where
  "wf_ndarray a = (length (data a) = itemsize (dtype a) * array_size a)"

definition le_nat :: "bytes \<Rightarrow> nat" where
  "le_nat bs = foldr (\<lambda>c acc. of_char c + 256 * acc) bs 0"

text \<open>
  A Python \<open>float\<close> is named by the IEEE bytes it was read from and their dtype (an
  element of a narrower float dtype stands for the double of the same value).  The
  model neither computes with floats nor compares them; the one thing the helpers do
  with a float is to write its literal, which is left to a parameter of the encoder.
\<close>

datatype pyfloat = Float dtype bytes

datatype number = NInt int | NFloat pyfloat

text \<open>
  The Python number an element converts to (\<^verbatim>\<open>item()\<close>, \<^verbatim>\<open>tolist()\<close>): an integer
  dtype gives the \<open>int\<close> its bytes denote, in two's complement when signed; a float
  dtype gives a \<open>float\<close>.
\<close>

fun item_value :: "dtype \<Rightarrow> bytes \<Rightarrow> number" where
  "item_value DUInt8 bs = NInt (int (le_nat bs))"
| "item_value DUInt16 bs = NInt (int (le_nat bs))"
| "item_value DUInt32 bs = NInt (int (le_nat bs))"
| "item_value DUInt64 bs = NInt (int (le_nat bs))"
| "item_value DFloat16 bs = NFloat (Float DFloat16 bs)"
| "item_value DFloat32 bs = NFloat (Float DFloat32 bs)"
| "item_value DFloat64 bs = NFloat (Float DFloat64 bs)"
| "item_value d bs =
     (let v = int (le_nat bs); m = 2 ^ (8 * itemsize d)
      in NInt (if m \<le> 2 * v then v - m else v))"

definition item_bytes :: "ndarray \<Rightarrow> nat \<Rightarrow> bytes" where
  "item_bytes a i = take (itemsize (dtype a)) (drop (i * itemsize (dtype a)) (data a))"

text \<open>\<^verbatim>\<open>tolist()\<close> of a one-dimensional array: the list of its elements.\<close>

definition tolist :: "ndarray \<Rightarrow> number list" where
  "tolist a = map (\<lambda>i. item_value (dtype a) (item_bytes a i)) [0..<array_size a]"

text \<open>
  \<^verbatim>\<open>np.frombuffer(data, dtype)\<close>: a one-dimensional array over the bytes;
  \<^verbatim>\<open>ValueError\<close> when their number is no multiple of the element size.
\<close>

definition np_frombuffer :: "bytes \<Rightarrow> dtype \<Rightarrow> error + ndarray" where
  "np_frombuffer b d =
     (if length b mod itemsize d \<noteq> 0 then Inl ValueError
      else Inr \<lparr>dtype = d, shape = [length b div itemsize d], data = b\<rparr>)"

text \<open>
  \<^verbatim>\<open>a.reshape(dims)\<close> for a list of non-negative dimensions: \<^verbatim>\<open>ValueError\<close>
  unless their product is the number of elements.  (A dimension \<open>-1\<close>, which NumPy
  infers, is outside the model.)
\<close>

definition np_reshape :: "ndarray \<Rightarrow> int list \<Rightarrow> error + ndarray" where
  "np_reshape a dims =
     (if \<not> list_all (\<lambda>d. 0 \<le> d) dims then Inl OutsideModel
      else if prod_list (map nat dims) \<noteq> array_size a then Inl ValueError
      else Inr (a\<lparr>shape := map nat dims\<rparr>))"

section \<open>Python values\<close>

text \<open>
  The values the helpers handle.  A \<open>dict\<close> is the list of its items in insertion
  order; its keys are integers or strings and occur once.
\<close>

datatype key = KInt int | KStr string

datatype pyval =
    PNone
  | PBool bool
  | PInt int
  | PFloat pyfloat
  | PStr string
  | PBytes bytes
  | PList "pyval list"
  | PTuple "pyval list"
  | PDict "(key \<times> pyval) list"
  | PNdarray ndarray
  | PQByteArray bytes
  | PNpInt int

fun number_val :: "number \<Rightarrow> pyval" where
  "number_val (NInt i) = PInt i"
| "number_val (NFloat f) = PFloat f"

text \<open>\<^verbatim>\<open>d[k] = v\<close>: a key already present keeps its place and takes the new value.\<close>

fun dict_set :: "(key \<times> 'v) list \<Rightarrow> key \<Rightarrow> 'v \<Rightarrow> (key \<times> 'v) list" where
  "dict_set [] k v = [(k, v)]"
| "dict_set ((k', v') # kvs) k v =
     (if k' = k then (k', v) # kvs else (k', v') # dict_set kvs k v)"

text \<open>\<^verbatim>\<open>dict(pairs)\<close>: the pairs are stored one after the other.\<close>

definition dict_of_pairs :: "(key \<times> 'v) list \<Rightarrow> (key \<times> 'v) list" where
  "dict_of_pairs pairs = foldl (\<lambda>d (k, v). dict_set d k v) [] pairs"

text \<open>\<^verbatim>\<open>d[k]\<close>: \<^verbatim>\<open>KeyError\<close> for a missing key.\<close>

definition dict_get :: "(key \<times> 'v) list \<Rightarrow> key \<Rightarrow> error + 'v" where
  "dict_get kvs k = (case map_of kvs k of None \<Rightarrow> Inl KeyError | Some v \<Rightarrow> Inr v)"

definition dict_contains :: "(key \<times> 'v) list \<Rightarrow> key \<Rightarrow> bool" where
  "dict_contains kvs k = (map_of kvs k \<noteq> None)"

section \<open>The JSON encoder\<close>

text \<open>
  \<^verbatim>\<open>json.dump(data, f, cls=_CustomEncoder, indent=2, sort_keys=True)\<close> is
  modelled in two steps: \<open>to_json\<close> walks the Python value as the encoder does and
  gives the tree of JSON values it emits, \<open>render\<close> writes that tree as text.
\<close>

datatype json =
    JNull
  | JBool bool
  | JInt int
  | JFloat pyfloat
  | JStr string
  | JArr "json list"
  | JObj "(string \<times> json) list"

fun is_KInt :: "key \<Rightarrow> bool" where
  "is_KInt (KInt _) = True"
| "is_KInt (KStr _) = False"

fun is_KStr :: "key \<Rightarrow> bool" where
  "is_KStr (KStr _) = True"
| "is_KStr (KInt _) = False"

fun key_int :: "key \<Rightarrow> int" where
  "key_int (KInt i) = i"
| "key_int (KStr _) = 0"

text \<open>The text of a key in the output: a string as it is, an integer as its literal.\<close>

fun key_text :: "key \<Rightarrow> string" where
  "key_text (KStr s) = s"
| "key_text (KInt i) = py_str i"

text \<open>
  \<^verbatim>\<open>sorted(dct.items())\<close>, which \<^verbatim>\<open>sort_keys=True\<close> applies to every dict before
  its keys are turned into text.  Keys are unique, so the items are ordered by their
  keys alone: strings by code points, integers by value.  Python cannot order an
  integer against a string: a dict that holds both kinds of key (it then has at least
  two items) raises \<^verbatim>\<open>TypeError\<close>.
\<close>

definition py_sorted_items :: "(key \<times> 'v) list \<Rightarrow> error + (key \<times> 'v) list" where
  "py_sorted_items kvs =
     (if list_all (\<lambda>kv. is_KStr (fst kv)) kvs then
        Inr (sort_key (\<lambda>kv. key_text (fst kv)) kvs)
      else if list_all (\<lambda>kv. is_KInt (fst kv)) kvs then
        Inr (sort_key (\<lambda>kv. key_int (fst kv)) kvs)
      else Inl TypeError)"

text \<open>
  \<^verbatim>\<open>_encode_qbytearray\<close>: the blob's own base64 text, base64-encoded once more.
\<close>

definition encode_qbytearray :: "bytes \<Rightarrow> string" where
  "encode_qbytearray arr = (let b = qt_toBase64 arr in b64encode b)"

text \<open>
  \<^verbatim>\<open>_CustomEncoder.default\<close>, which the encoder calls on every value that is no
  JSON value by itself.  The branches are tried in the source's order; the last one is
  \<^verbatim>\<open>JSONEncoder.default\<close>, which raises \<^verbatim>\<open>TypeError\<close>.
\<close>

definition CustomEncoder_default :: "pyval \<Rightarrow> error + pyval" where
  "CustomEncoder_default obj =
     (case obj of
        PNdarray a \<Rightarrow>
          (if ndim a = 1 \<and> shape a ! 0 \<le> 10 then
             Inr (PList (map number_val (tolist a)))
           else
             Inr (PDict [(KStr ''__ndarray__'', PStr (b64encode (data a))),
                         (KStr ''dtype'', PStr (dtype_str (dtype a))),
                         (KStr ''shape'', PTuple (map (\<lambda>n. PInt (int n)) (shape a)))]))
      | PQByteArray b \<Rightarrow> Inr (PDict [(KStr ''__qbytearray__'', PStr (encode_qbytearray b))])
      | PNpInt i \<Rightarrow> Inr (PInt i)
      | _ \<Rightarrow> Inl TypeError)"

text \<open>
  The encoder encodes what \<open>default\<close> returns, so its recursion is not structural.
  It ends because \<open>default\<close> returns values of a smaller \<open>rank\<close>.
\<close>

fun rank :: "pyval \<Rightarrow> nat" where
  "rank (PList xs) = Suc (sum_list (map rank xs))"
| "rank (PTuple xs) = Suc (sum_list (map rank xs))"
| "rank (PDict kvs) = Suc (sum_list (map (\<lambda>kv. rank (snd kv)) kvs))"
| "rank (PNdarray a) = 13 + length (shape a)"
| "rank (PQByteArray b) = 3"
| "rank (PNpInt i) = 2"
| "rank _ = 1"

lemma bind_cong [fundef_cong]:
  "m = m' \<Longrightarrow> (\<And>x. m' = Inr x \<Longrightarrow> f x = g x) \<Longrightarrow> bind m f = bind m' g"
  by (auto simp: bind_def split: sum.splits)

lemma map_res_cong [fundef_cong]:
  "xs = ys \<Longrightarrow> (\<And>x. x \<in> set ys \<Longrightarrow> f x = g x) \<Longrightarrow> map_res f xs = map_res g ys"
  by (induction ys arbitrary: xs) (auto split: sum.splits)

lemma map_res_length: "map_res f xs = Inr ys \<Longrightarrow> length ys = length xs"
  by (induction xs arbitrary: ys) (auto simp: cons_res_def split: sum.splits)

lemma sum_list_Suc0: "(\<Sum>x\<leftarrow>xs. Suc 0) = length xs"
  by (induction xs) auto

lemma rank_number_val: "rank (number_val x) = 1"
  by (cases x) simp_all

lemma default_rank:
  assumes "CustomEncoder_default obj = Inr obj'"
  shows "rank obj' < rank obj"
proof (cases obj)
  case (PNdarray a)
  show ?thesis
  proof (cases "ndim a = 1 \<and> shape a ! 0 \<le> 10")
    case True
    then obtain n where sh: "shape a = [n]" and n: "n \<le> 10"
      by (cases "shape a") (auto simp: ndim_def)
    from assms PNdarray True have obj': "obj' = PList (map number_val (tolist a))"
      by (auto simp: CustomEncoder_default_def)
    have "length (tolist a) = n"
      by (simp add: tolist_def array_size_def sh)
    with n obj' PNdarray show ?thesis
      by (simp add: o_def rank_number_val sum_list_Suc0)
  next
    case False
    with assms PNdarray show ?thesis
      by (auto simp: CustomEncoder_default_def o_def sum_list_Suc0)
  qed
qed (use assms in \<open>auto simp: CustomEncoder_default_def\<close>)

text \<open>
  The encoder's dispatch (\<^verbatim>\<open>_iterencode\<close>): strings, \<^verbatim>\<open>None\<close>, booleans,
  integers and floats are written as they are, lists and tuples as arrays, dicts as
  objects with their items sorted; anything else goes through \<open>default\<close>.
\<close>

function (sequential) to_json :: "pyval \<Rightarrow> error + json" where
  "to_json (PStr s) = Inr (JStr s)"
| "to_json PNone = Inr JNull"
| "to_json (PBool b) = Inr (JBool b)"
| "to_json (PInt i) = Inr (JInt i)"
| "to_json (PFloat f) = Inr (JFloat f)"
| "to_json (PList xs) = bind (map_res to_json xs) (\<lambda>js. Inr (JArr js))"
| "to_json (PTuple xs) = bind (map_res to_json xs) (\<lambda>js. Inr (JArr js))"
| "to_json (PDict kvs) =
     bind (py_sorted_items kvs) (\<lambda>items.
     bind (map_res (\<lambda>kv. bind (to_json (snd kv)) (\<lambda>j. Inr (key_text (fst kv), j))) items)
          (\<lambda>members. Inr (JObj members)))"
| "to_json obj = bind (CustomEncoder_default obj) to_json"
  by pat_completeness auto
termination
proof (relation "measure rank")
  fix kvs :: "(key \<times> pyval) list" and items kv
  assume "py_sorted_items kvs = Inr items" "kv \<in> set items"
  then have "kv \<in> set kvs"
    by (auto simp: py_sorted_items_def split: if_splits)
  then have "rank (snd kv) \<le> (\<Sum>kv\<leftarrow>kvs. rank (snd kv))"
    by (induction kvs) auto
  then show "(snd kv, PDict kvs) \<in> measure rank" by simp
qed (auto dest!: default_rank simp: less_Suc_eq_le member_le_sum_list)

subsection \<open>Rendering\<close>

text \<open>
  The text for \<^verbatim>\<open>indent=2\<close>: an empty array or object is \<open>[]\<close> or \<open>{}\<close>; otherwise
  every item stands on a line of its own, indented by two spaces per level, items are
  separated by a comma and a key from its value by a colon and a space.  Strings are
  written by \<^verbatim>\<open>encode_basestring_ascii\<close>: everything outside the printable ASCII
  characters is escaped.
\<close>

definition newline_indent :: "nat \<Rightarrow> string" where
  "newline_indent level = CHR 0x0A # replicate (2 * level) CHR '' ''"

definition hex_chr :: "nat \<Rightarrow> char" where
  "hex_chr n = ''0123456789abcdef'' ! n"

definition escape_char :: "char \<Rightarrow> string" where
  "escape_char c =
     (if c = CHR 0x22 then [CHR 0x5C, CHR 0x22]
      else if c = CHR 0x5C then [CHR 0x5C, CHR 0x5C]
      else if c = CHR 0x0A then [CHR 0x5C, CHR ''n'']
      else if c = CHR 0x0D then [CHR 0x5C, CHR ''r'']
      else if c = CHR 0x09 then [CHR 0x5C, CHR ''t'']
      else if c = CHR 0x08 then [CHR 0x5C, CHR ''b'']
      else if c = CHR 0x0C then [CHR 0x5C, CHR ''f'']
      else if CHR 0x20 \<le> c \<and> c \<le> CHR 0x7E then [c]
      else [CHR 0x5C, CHR ''u'', CHR ''0'', CHR ''0'',
            hex_chr (of_char c div 16), hex_chr (of_char c mod 16)])"

definition encode_basestring_ascii :: "string \<Rightarrow> string" where
  "encode_basestring_ascii s = CHR 0x22 # concat (map escape_char s) @ [CHR 0x22]"

text \<open>
  A float is written by \<^verbatim>\<open>float.__repr__\<close> (\<^verbatim>\<open>NaN\<close>, \<^verbatim>\<open>Infinity\<close> and \<^verbatim>\<open>-Infinity\<close>
  for the values that are no numbers); the renderer takes this function as its first
  argument \<open>float_repr\<close>.
\<close>

fun render :: "(pyfloat \<Rightarrow> string) \<Rightarrow> nat \<Rightarrow> json \<Rightarrow> string"
  and render_items :: "(pyfloat \<Rightarrow> string) \<Rightarrow> nat \<Rightarrow> json list \<Rightarrow> string"
  and render_members :: "(pyfloat \<Rightarrow> string) \<Rightarrow> nat \<Rightarrow> (string \<times> json) list \<Rightarrow> string" where
  "render float_repr level JNull = ''null''"
| "render float_repr level (JBool b) = (if b then ''true'' else ''false'')"
| "render float_repr level (JInt i) = py_str i"
| "render float_repr level (JFloat f) = float_repr f"
| "render float_repr level (JStr s) = encode_basestring_ascii s"
| "render float_repr level (JArr []) = ''[]''"
| "render float_repr level (JArr (x # xs)) =
     ''['' @ newline_indent (level + 1) @ render float_repr (level + 1) x
       @ render_items float_repr (level + 1) xs
       @ newline_indent level @ '']''"
| "render float_repr level (JObj []) = ''{}''"
| "render float_repr level (JObj ((k, v) # kvs)) =
     ''{'' @ newline_indent (level + 1) @ encode_basestring_ascii k @ '': ''
       @ render float_repr (level + 1) v @ render_members float_repr (level + 1) kvs
       @ newline_indent level @ ''}''"
| "render_items float_repr level [] = []"
| "render_items float_repr level (x # xs) =
     '','' @ newline_indent level @ render float_repr level x
       @ render_items float_repr level xs"
| "render_members float_repr level [] = []"
| "render_members float_repr level ((k, v) # kvs) =
     '','' @ newline_indent level @ encode_basestring_ascii k @ '': ''
       @ render float_repr level v @ render_members float_repr level kvs"

definition json_dump :: "(pyfloat \<Rightarrow> string) \<Rightarrow> pyval \<Rightarrow> error + string" where
  "json_dump float_repr obj = bind (to_json obj) (\<lambda>j. Inr (render float_repr 0 j))"

section \<open>The JSON decoder\<close>

text \<open>
  \<^verbatim>\<open>json.loads(text, object_hook=hook)\<close>: the scanner of the \<^verbatim>\<open>json\<close> module,
  with the hook called on every object as soon as it is complete, so that an outer
  object holds the hook's results for the inner ones.  All syntax errors are
  \<^verbatim>\<open>JSONDecodeError\<close>.  Number literals with a fraction or an exponent and the
  constants \<^verbatim>\<open>NaN\<close> and \<^verbatim>\<open>Infinity\<close> denote floats and are outside the model, as
  are escapes \<^verbatim>\<open>\uXXXX\<close> above 255.
\<close>

definition is_ws :: "char \<Rightarrow> bool" where
  "is_ws c = (c = CHR '' '' \<or> c = CHR 0x09 \<or> c = CHR 0x0A \<or> c = CHR 0x0D)"

definition skip_ws :: "string \<Rightarrow> string" where
  "skip_ws s = dropWhile is_ws s"

definition hex_val :: "char \<Rightarrow> nat option" where
  "hex_val c =
     (if is_ascii_digit c then Some (of_char c - 48)
      else if CHR ''a'' \<le> c \<and> c \<le> CHR ''f'' then Some (of_char c - 87)
      else if CHR ''A'' \<le> c \<and> c \<le> CHR ''F'' then Some (of_char c - 55)
      else None)"

definition hex4 :: "char \<Rightarrow> char \<Rightarrow> char \<Rightarrow> char \<Rightarrow> nat option" where
  "hex4 a b c d =
     (case (hex_val a, hex_val b, hex_val c, hex_val d) of
        (Some x, Some y, Some z, Some w) \<Rightarrow> Some (((x * 16 + y) * 16 + z) * 16 + w)
      | _ \<Rightarrow> None)"

definition unescape :: "char \<Rightarrow> char option" where
  "unescape e =
     (if e = CHR 0x22 then Some (CHR 0x22)
      else if e = CHR 0x5C then Some (CHR 0x5C)
      else if e = CHR ''/'' then Some (CHR ''/'')
      else if e = CHR ''b'' then Some (CHR 0x08)
      else if e = CHR ''f'' then Some (CHR 0x0C)
      else if e = CHR ''n'' then Some (CHR 0x0A)
      else if e = CHR ''r'' then Some (CHR 0x0D)
      else if e = CHR ''t'' then Some (CHR 0x09)
      else None)"

definition cons_fst :: "'a \<Rightarrow> error + ('a list \<times> 'b) \<Rightarrow> error + ('a list \<times> 'b)" where
  "cons_fst x m = (case m of Inl e \<Rightarrow> Inl e | Inr (xs, r) \<Rightarrow> Inr (x # xs, r))"

text \<open>
  \<^verbatim>\<open>scanstring\<close> reads a string literal after its opening quote and returns the
  string and the text after the closing quote.  Control characters must be escaped.
\<close>

fun scanstring :: "string \<Rightarrow> error + (string \<times> string)" where
  "scanstring [] = Inl JSONDecodeError"
| "scanstring (c # cs) =
     (if c = CHR 0x22 then Inr ([], cs)
      else if c = CHR 0x5C then
        (case cs of
           [] \<Rightarrow> Inl JSONDecodeError
         | e # r \<Rightarrow>
             (if e = CHR ''u'' then
                (case r of
                   a # b # c' # d # r' \<Rightarrow>
                     (case hex4 a b c' d of
                        None \<Rightarrow> Inl JSONDecodeError
                      | Some n \<Rightarrow>
                          if n < 256 then cons_fst (char_of n) (scanstring r')
                          else Inl OutsideModel)
                 | _ \<Rightarrow> Inl JSONDecodeError)
              else
                (case unescape e of
                   None \<Rightarrow> Inl JSONDecodeError
                 | Some x \<Rightarrow> cons_fst x (scanstring r))))
      else if c < CHR 0x20 then Inl JSONDecodeError
      else cons_fst c (scanstring cs))"

text \<open>
  The integer part of a number literal, \<^verbatim>\<open>-?(?:0|[1-9]\d*)\<close>: a zero is followed by
  no further digit of the same literal.  \<open>match_frac\<close> and \<open>match_exp\<close> tell
  whether a fraction \<^verbatim>\<open>\.\d+\<close> or an exponent \<^verbatim>\<open>[eE][-+]?\d+\<close> follows.
\<close>

definition match_integer :: "string \<Rightarrow> (bool \<times> string \<times> string) option" where
  "match_integer s =
     (let neg = (s \<noteq> [] \<and> hd s = CHR ''-''); r = (if neg then tl s else s) in
      case r of
        [] \<Rightarrow> None
      | d # r' \<Rightarrow>
          if d = CHR ''0'' then Some (neg, [d], r')
          else if is_ascii_digit d then
            Some (neg, takeWhile is_ascii_digit r, dropWhile is_ascii_digit r)
          else None)"

definition match_frac :: "string \<Rightarrow> bool" where
  "match_frac r = (case r of p # d # _ \<Rightarrow> p = CHR ''.'' \<and> is_ascii_digit d | _ \<Rightarrow> False)"

definition match_exp :: "string \<Rightarrow> bool" where
  "match_exp r =
     (case r of
        e # d # r' \<Rightarrow>
          (e = CHR ''e'' \<or> e = CHR ''E'') \<and>
          (is_ascii_digit d \<or>
           ((d = CHR ''+'' \<or> d = CHR ''-'') \<and> r' \<noteq> [] \<and> is_ascii_digit (hd r')))
      | _ \<Rightarrow> False)"

text \<open>
  The scanner proper.  \<open>parse_value\<close> reads one value at the start of the text,
  \<open>parse_array\<close> the items of an array that is not empty, \<open>parse_object\<close> the
  members of an object, starting after the opening quote of a key.  Each returns the
  text it has not read.  The first argument is the object hook.  The recursion is on a
  counter that every call decrements; \<open>json_loads\<close> starts it high enough for the
  length of the text.
\<close>

fun parse_value :: "(pyval \<Rightarrow> error + pyval) \<Rightarrow> nat \<Rightarrow> string \<Rightarrow> error + (pyval \<times> string)"
  and parse_array :: "(pyval \<Rightarrow> error + pyval) \<Rightarrow> nat \<Rightarrow> string \<Rightarrow> error + (pyval list \<times> string)"
  and parse_object :: "(pyval \<Rightarrow> error + pyval) \<Rightarrow> nat \<Rightarrow> string \<Rightarrow> error + ((key \<times> pyval) list \<times> string)"
  where
  "parse_value hook 0 s = Inl OutsideModel"
| "parse_value hook (Suc n) [] = Inl JSONDecodeError"
| "parse_value hook (Suc n) (c # cs) =
     (if c = CHR 0x22 then bind (scanstring cs) (\<lambda>(x, r). Inr (PStr x, r))
      else if c = CHR ''{'' then
        (case skip_ws cs of
           [] \<Rightarrow> Inl JSONDecodeError
         | q # r \<Rightarrow>
             if q = CHR ''}'' then bind (hook (PDict [])) (\<lambda>v. Inr (v, r))
             else if q = CHR 0x22 then
               bind (parse_object hook n r) (\<lambda>(pairs, r').
               bind (hook (PDict (dict_of_pairs pairs))) (\<lambda>v. Inr (v, r')))
             else Inl JSONDecodeError)
      else if c = CHR ''['' then
        (case skip_ws cs of
           [] \<Rightarrow> Inl JSONDecodeError
         | q # r \<Rightarrow>
             if q = CHR '']'' then Inr (PList [], r)
             else bind (parse_array hook n (q # r)) (\<lambda>(vs, r'). Inr (PList vs, r')))
      else if c = CHR ''n'' \<and> take 4 (c # cs) = ''null'' then Inr (PNone, drop 3 cs)
      else if c = CHR ''t'' \<and> take 4 (c # cs) = ''true'' then Inr (PBool True, drop 3 cs)
      else if c = CHR ''f'' \<and> take 5 (c # cs) = ''false'' then Inr (PBool False, drop 4 cs)
      else
        (case match_integer (c # cs) of
           Some (neg, ds, r) \<Rightarrow>
             if match_frac r \<or> match_exp r then Inl OutsideModel
             else Inr (PInt (if neg then - int (nat_of_digits ds) else int (nat_of_digits ds)), r)
         | None \<Rightarrow>
             if c = CHR ''N'' \<and> take 3 (c # cs) = ''NaN'' then Inl OutsideModel
             else if c = CHR ''I'' \<and> take 8 (c # cs) = ''Infinity'' then Inl OutsideModel
             else if c = CHR ''-'' \<and> take 9 (c # cs) = ''-Infinity'' then Inl OutsideModel
             else Inl JSONDecodeError))"
| "parse_array hook 0 s = Inl OutsideModel"
| "parse_array hook (Suc n) s =
     bind (parse_value hook n s) (\<lambda>(v, r).
       case skip_ws r of
         [] \<Rightarrow> Inl JSONDecodeError
       | c # r' \<Rightarrow>
           if c = CHR '']'' then Inr ([v], r')
           else if c = CHR '','' then cons_fst v (parse_array hook n (skip_ws r'))
           else Inl JSONDecodeError)"
| "parse_object hook 0 s = Inl OutsideModel"
| "parse_object hook (Suc n) s =
     bind (scanstring s) (\<lambda>(k, r).
       case skip_ws r of
         [] \<Rightarrow> Inl JSONDecodeError
       | c # r1 \<Rightarrow>
           if c \<noteq> CHR '':'' then Inl JSONDecodeError
           else
             bind (parse_value hook n (skip_ws r1)) (\<lambda>(v, r2).
               case skip_ws r2 of
                 [] \<Rightarrow> Inl JSONDecodeError
               | c2 # r3 \<Rightarrow>
                   if c2 = CHR ''}'' then Inr ([(KStr k, v)], r3)
                   else if c2 = CHR '','' then
                     (case skip_ws r3 of
                        [] \<Rightarrow> Inl JSONDecodeError
                      | q # r4 \<Rightarrow>
                          if q = CHR 0x22 then cons_fst (KStr k, v) (parse_object hook n r4)
                          else Inl JSONDecodeError)
                   else Inl JSONDecodeError))"

text \<open>
  \<^verbatim>\<open>json.loads\<close>: blanks may stand before and after the value, anything else after
  it is an error (\<^verbatim>\<open>Extra data\<close>).
\<close>

definition json_loads :: "(pyval \<Rightarrow> error + pyval) \<Rightarrow> string \<Rightarrow> error + pyval" where
  "json_loads hook s =
     bind (parse_value hook (2 * length s + 2) (skip_ws s)) (\<lambda>(v, r).
       if skip_ws r = [] then Inr v else Inl JSONDecodeError)"

section \<open>The helpers of the module\<close>

text \<open>
  What follows embeds the functions of \<^verbatim>\<open>_misc.py\<close> themselves.

  \<^verbatim>\<open>base64.b64decode\<close> applied to a decoded JSON value: a string is decoded,
  \<^verbatim>\<open>None\<close>, numbers, lists and dicts are \<^verbatim>\<open>TypeError\<close>.  (An array or a
  blob, which only a hook can have put there, would be read through the buffer
  protocol; that is outside the model.)
\<close>

definition b64decode_val :: "pyval \<Rightarrow> error + bytes" where
  "b64decode_val v =
     (case v of
        PStr s \<Rightarrow> b64decode s
      | PBytes b \<Rightarrow> a2b_base64 0 0 0 b
      | PNdarray a \<Rightarrow> Inl OutsideModel
      | PQByteArray b \<Rightarrow> Inl OutsideModel
      | _ \<Rightarrow> Inl TypeError)"

text \<open>
  \<^verbatim>\<open>_decode_qbytearray\<close>.  \<open>pyqt5\<close> tells whether \<^verbatim>\<open>PyQt5.QtCore\<close> can be
  imported.  When it cannot, the \<^verbatim>\<open>except ImportError: pass\<close> branch leaves \<open>out\<close>
  unassigned and \<^verbatim>\<open>return out\<close> raises \<^verbatim>\<open>UnboundLocalError\<close>.
\<close>

definition decode_qbytearray :: "bool \<Rightarrow> pyval \<Rightarrow> error + pyval" where
  "decode_qbytearray pyqt5 data_b64 =
     bind (b64decode_val data_b64) (\<lambda>encoded.
       if pyqt5 then Inr (PQByteArray (qt_fromBase64 encoded))
       else Inl UnboundLocalError)"

text \<open>
  The arguments \<^verbatim>\<open>d['dtype']\<close> and \<^verbatim>\<open>d['shape']\<close> of \<^verbatim>\<open>np.frombuffer\<close> and
  \<^verbatim>\<open>reshape\<close>: a dtype name and a list of integers; other forms NumPy accepts are
  outside the model.
\<close>

definition dtype_arg :: "pyval \<Rightarrow> error + dtype" where
  "dtype_arg v =
     (case v of
        PStr name \<Rightarrow> (case np_dtype name of None \<Rightarrow> Inl OutsideModel | Some d \<Rightarrow> Inr d)
      | _ \<Rightarrow> Inl OutsideModel)"

fun int_arg :: "pyval \<Rightarrow> error + int" where
  "int_arg (PInt i) = Inr i"
| "int_arg _ = Inl OutsideModel"

definition shape_arg :: "pyval \<Rightarrow> error + int list" where
  "shape_arg v = (case v of PList xs \<Rightarrow> map_res int_arg xs | _ \<Rightarrow> Inl OutsideModel)"

text \<open>
  \<^verbatim>\<open>_json_custom_hook\<close>: an object with the key \<^verbatim>\<open>__ndarray__\<close> becomes an array,
  one with the key \<^verbatim>\<open>__qbytearray__\<close> a blob, any other value is returned as it is.
\<close>

definition json_custom_hook :: "bool \<Rightarrow> pyval \<Rightarrow> error + pyval" where
  "json_custom_hook pyqt5 d =
     (case d of
        PDict kvs \<Rightarrow>
          if dict_contains kvs (KStr ''__ndarray__'') then
            bind (dict_get kvs (KStr ''__ndarray__'')) (\<lambda>x.
            bind (b64decode_val x) (\<lambda>raw.
            bind (dict_get kvs (KStr ''dtype'')) (\<lambda>dt.
            bind (dtype_arg dt) (\<lambda>dt'.
            bind (np_frombuffer raw dt') (\<lambda>arr.
            bind (dict_get kvs (KStr ''shape'')) (\<lambda>sh.
            bind (shape_arg sh) (\<lambda>dims.
            bind (np_reshape arr dims) (\<lambda>arr'. Inr (PNdarray arr')))))))))
          else if dict_contains kvs (KStr ''__qbytearray__'') then
            bind (dict_get kvs (KStr ''__qbytearray__'')) (decode_qbytearray pyqt5)
          else Inr d
      | _ \<Rightarrow> Inr d)"

fun is_dict :: "pyval \<Rightarrow> bool" where
  "is_dict (PDict _) = True"
| "is_dict _ = False"

fun dict_items :: "pyval \<Rightarrow> (key \<times> pyval) list" where
  "dict_items (PDict kvs) = kvs"
| "dict_items _ = []"

text \<open>
  \<^verbatim>\<open>_intify_keys\<close>: the assertion, then the loop over the items, which stores every
  value under its key, or under \<^verbatim>\<open>int(k)\<close> when the key is a string of digits.
\<close>

fun intify_loop :: "(key \<times> pyval) list \<Rightarrow> (key \<times> pyval) list \<Rightarrow> error + (key \<times> pyval) list" where
  "intify_loop [] out = Inr out"
| "intify_loop ((k, v) # kvs) out =
     (if is_KStr k \<and> py_isdigit (key_text k) then
        bind (py_int (key_text k)) (\<lambda>i. intify_loop kvs (dict_set out (KInt i) v))
      else intify_loop kvs (dict_set out k v))"

definition intify_keys :: "pyval \<Rightarrow> error + pyval" where
  "intify_keys d =
     (if \<not> is_dict d then Inl AssertionError
      else bind (intify_loop (dict_items d) []) (\<lambda>out. Inr (PDict out)))"

text \<open>
  Modelled from the spec: \<^verbatim>\<open>_is_integer\<close> is imported from \<^verbatim>\<open>phylib/utils/_types.py\<close>,
  which is not among the sources.  The spec has keys that are integers or strings, and
  key normalization replaces "every integer key" and lets "string keys pass through
  unchanged".
\<close>

fun is_integer :: "key \<Rightarrow> bool" where
  "is_integer (KInt _) = True"
| "is_integer (KStr _) = False"

text \<open>\<^verbatim>\<open>_stringify_keys\<close>: every integer key is replaced by \<^verbatim>\<open>str(k)\<close>.\<close>

fun stringify_loop :: "(key \<times> pyval) list \<Rightarrow> (key \<times> pyval) list \<Rightarrow> (key \<times> pyval) list" where
  "stringify_loop [] out = out"
| "stringify_loop ((k, v) # kvs) out =
     (if is_integer k then stringify_loop kvs (dict_set out (KStr (py_str (key_int k))) v)
      else stringify_loop kvs (dict_set out k v))"

definition stringify_keys :: "pyval \<Rightarrow> error + pyval" where
  "stringify_keys d =
     (if \<not> is_dict d then Inl AssertionError
      else Inr (PDict (stringify_loop (dict_items d) [])))"

text \<open>
  The files: a map from paths to contents.  Directories are not modelled
  (\<^verbatim>\<open>_ensure_dir_exists\<close> is taken to succeed), and a \<open>save_json\<close> that fails
  returns the error alone, not the file it has begun to write.

  \<^verbatim>\<open>_load_json\<close> and \<^verbatim>\<open>_save_json\<close> (whose first argument is the \<open>float_repr\<close> of the
  renderer):
\<close>

type_synonym filesystem = "string \<rightharpoonup> string"

definition load_json :: "bool \<Rightarrow> filesystem \<Rightarrow> string \<Rightarrow> error + pyval" where
  "load_json pyqt5 fs path =
     (case fs path of
        None \<Rightarrow> Inl IOError
      | Some contents \<Rightarrow>
          if contents = [] then Inr (PDict [])
          else bind (json_loads (json_custom_hook pyqt5) contents) intify_keys)"

definition save_json ::
  "(pyfloat \<Rightarrow> string) \<Rightarrow> filesystem \<Rightarrow> string \<Rightarrow> pyval \<Rightarrow> error + filesystem" where
  "save_json float_repr fs path dat =
     (if \<not> is_dict dat then Inl AssertionError
      else
        bind (stringify_keys dat) (\<lambda>dat'.
        bind (json_dump float_repr dat') (\<lambda>text. Inr (fs(path \<mapsto> text)))))"

section \<open>Basic facts\<close>

lemma bind_simps [simp]: "bind (Inl e) f = Inl e" "bind (Inr x) f = f x"
  by (simp_all add: bind_def)

lemma cons_res_simps [simp]: "cons_res x (Inl e) = Inl e" "cons_res x (Inr xs) = Inr (x # xs)"
  by (simp_all add: cons_res_def)

lemma cons_fst_simps [simp]:
  "cons_fst x (Inl e) = Inl e" "cons_fst x (Inr (xs, r)) = Inr (x # xs, r)"
  by (simp_all add: cons_fst_def)

lemma fst_set_dict_set: "fst ` set (dict_set d k v) = insert k (fst ` set d)"
  by (induction d k v rule: dict_set.induct) auto

section \<open>Decoding: empty text, other top-level values, colliding keys\<close>

text \<open>
  Claim C7.  Decoding a file of length zero gives the empty mapping and raises
  nothing, whatever else the file system holds and whether or not PyQt5 is there.
\<close>

theorem load_json_empty: "load_json pyqt5 (fs(path \<mapsto> [])) path = Inr (PDict [])"
  by (simp add: load_json_def)

lemma loads_list_1_2: "json_loads hook ''[1, 2]'' = Inr (PList [PInt 1, PInt 2])"
  by code_simp

lemma load_json_is_dict:
  assumes "load_json pyqt5 fs path = Inr v"
  shows "is_dict v"
proof (cases "fs path")
  case None
  with assms show ?thesis by (simp add: load_json_def)
next
  case (Some contents)
  show ?thesis
  proof (cases "contents = []")
    case True
    with assms Some show ?thesis by (auto simp: load_json_def)
  next
    case False
    with assms Some obtain d where "intify_keys d = Inr v"
      by (cases "json_loads (json_custom_hook pyqt5) contents") (auto simp: load_json_def)
    then show ?thesis
      by (cases "intify_loop (dict_items d) []") (auto simp: intify_keys_def split: if_splits)
  qed
qed

text \<open>
  Claim C9.  The text \<^verbatim>\<open>[1, 2]\<close> is valid JSON, its value is a list, and decoding it
  fails with the assertion error of \<^verbatim>\<open>_intify_keys\<close>.  In general whatever
  \<open>load_json\<close> returns is a mapping.
\<close>

theorem load_json_top_level_list:
  "load_json pyqt5 (fs(path \<mapsto> ''[1, 2]'')) path = Inl AssertionError
   \<and> (\<forall>v. load_json pyqt5 fs' path' = Inr v \<longrightarrow> is_dict v)"
  by (simp add: load_json_def loads_list_1_2 intify_keys_def load_json_is_dict)

theorem load_json_top_level_list_witness:
  "load_json True [''f'' \<mapsto> ''{}''] ''f'' = Inr (PDict []) \<and> is_dict (PDict [])"
proof -
  have "json_loads (json_custom_hook True) ''{}'' = Inr (PDict [])"
    by code_simp
  then have "load_json True [''f'' \<mapsto> ''{}''] ''f'' = Inr (PDict [])"
    by (simp add: load_json_def intify_keys_def)
  with load_json_top_level_list [of True Map.empty "''f''" "[''f'' \<mapsto> ''{}'']" "''f''"]
  show ?thesis by simp
qed

lemma intify_loop_keys:
  assumes "intify_loop kvs out = Inr res"
    and "\<forall>k \<in> fst ` set out. \<not> (is_KStr k \<and> py_isdigit (key_text k))"
  shows "\<forall>k \<in> fst ` set res. \<not> (is_KStr k \<and> py_isdigit (key_text k))"
  using assms
proof (induction kvs out arbitrary: res rule: intify_loop.induct)
  case (1 out)
  then show ?case by simp
next
  case (2 k v kvs out)
  show ?case
  proof (cases "is_KStr k \<and> py_isdigit (key_text k)")
    case True
    with "2.prems"(1) obtain i where i: "py_int (key_text k) = Inr i"
      and loop: "intify_loop kvs (dict_set out (KInt i) v) = Inr res"
      by (cases "py_int (key_text k)") auto
    show ?thesis
      by (rule "2.IH"(1) [OF True i loop]) (use "2.prems"(2) in \<open>auto simp: fst_set_dict_set\<close>)
  next
    case False
    with "2.prems"(1) have loop: "intify_loop kvs (dict_set out k v) = Inr res"
      by auto
    show ?thesis
      by (rule "2.IH"(2) [OF False loop])
        (use "2.prems"(2) False in \<open>auto simp: fst_set_dict_set\<close>)
  qed
qed

lemma load_json_keys:
  assumes "load_json pyqt5 fs path = Inr (PDict kvs)" and "py_isdigit s"
  shows "KStr s \<notin> fst ` set kvs"
proof (cases "fs path")
  case None
  with assms show ?thesis by (simp add: load_json_def)
next
  case (Some contents)
  show ?thesis
  proof (cases "contents = []")
    case True
    with assms Some show ?thesis by (simp add: load_json_def)
  next
    case False
    with assms(1) Some obtain d where "intify_keys d = Inr (PDict kvs)"
      by (cases "json_loads (json_custom_hook pyqt5) contents") (auto simp: load_json_def)
    then have "intify_loop (dict_items d) [] = Inr kvs"
      by (cases "intify_loop (dict_items d) []") (auto simp: intify_keys_def split: if_splits)
    from intify_loop_keys [OF this] assms(2) show ?thesis
      by force
  qed
qed

lemma loads_03_3:
  \<open>json_loads (json_custom_hook pyqt5) ''{"03": 1, "3": 2}''
     = Inr (PDict [(KStr ''03'', PInt 1), (KStr ''3'', PInt 2)])\<close>
  by code_simp

lemma intify_03_3:
  "intify_keys (PDict [(KStr ''03'', PInt 1), (KStr ''3'', PInt 2)]) = Inr (PDict [(KInt 3, PInt 2)])"
  by code_simp

text \<open>
  Claim C8.  The keys \<^verbatim>\<open>"03"\<close> and \<^verbatim>\<open>"3"\<close> are different strings and denote the same
  integer: decoding an object that holds both returns a mapping with the one key \<open>3\<close>,
  under which the later value stands; the value \<open>1\<close> is gone and nothing is raised.
  No mapping that \<open>load_json\<close> returns has a key that is a string of digits, so a
  digit-only key never comes back as the string it was.
\<close>

theorem load_json_digit_keys_collide:
  \<open>load_json pyqt5 (fs(path \<mapsto> ''{"03": 1, "3": 2}'')) path = Inr (PDict [(KInt 3, PInt 2)])
   \<and> (\<forall>kvs s. load_json pyqt5 fs' path' = Inr (PDict kvs) \<longrightarrow> py_isdigit s
         \<longrightarrow> KStr s \<notin> fst ` set kvs)\<close>
  by (simp add: load_json_def loads_03_3 intify_03_3 load_json_keys)

theorem load_json_digit_keys_collide_witness:
  \<open>load_json False [''f'' \<mapsto> ''{"03": 1, "3": 2}''] ''f'' = Inr (PDict [(KInt 3, PInt 2)])
   \<and> py_isdigit ''03'' \<and> KStr ''03'' \<notin> fst ` set [(KInt 3, PInt 2)]\<close>
proof -
  have "py_isdigit ''03''"
    by code_simp
  with load_json_digit_keys_collide
    [of False Map.empty "''f''" \<open>[''f'' \<mapsto> ''{"03": 1, "3": 2}'']\<close> "''f''"]
  show ?thesis by simp
qed

section \<open>Decoding a blob without PyQt5\<close>

lemma loads_blob_no_pyqt5:
  \<open>json_loads (json_custom_hook False) ''{"a": {"__qbytearray__": "QUJD"}}''
     = Inl UnboundLocalError\<close>
  by code_simp

text \<open>
  Claim C3 says that without the blob type a blob-tagged object decodes to the raw
  bytes.  The code does not: \<^verbatim>\<open>_decode_qbytearray\<close> catches the \<^verbatim>\<open>ImportError\<close>,
  leaves \<open>out\<close> unassigned and fails at \<^verbatim>\<open>return out\<close>.  Here the payload
  \<^verbatim>\<open>QUJD\<close> is the base64 text of the bytes \<^verbatim>\<open>ABC\<close>; decoding raises
  \<^verbatim>\<open>UnboundLocalError\<close>, and without PyQt5 \<^verbatim>\<open>_decode_qbytearray\<close> returns no value
  for any argument.
\<close>

theorem load_json_blob_without_pyqt5:
  \<open>load_json False (fs(path \<mapsto> ''{"a": {"__qbytearray__": "QUJD"}}'')) path
     = Inl UnboundLocalError
   \<and> b64decode ''QUJD'' = Inr ''ABC''
   \<and> (\<forall>v r. decode_qbytearray False v \<noteq> Inr r)\<close>
proof -
  have "b64decode ''QUJD'' = Inr ''ABC''"
    by code_simp
  moreover have "decode_qbytearray False v \<noteq> Inr r" for v r
    by (cases "b64decode_val v") (simp_all add: decode_qbytearray_def)
  ultimately show ?thesis
    by (simp add: load_json_def loads_blob_no_pyqt5)
qed

section \<open>Encoding: values that are no mapping, nested mixed keys\<close>

text \<open>
  Claim C4.  For every value that is no mapping \<open>save_json\<close> fails: the type test of
  its first line, \<^verbatim>\<open>assert isinstance(data, dict)\<close>, raises.  This is the failure of
  the precondition that the input be a mapping; the exception Python raises for it is
  an \<^verbatim>\<open>AssertionError\<close>.
\<close>

theorem save_json_not_dict:
  "\<not> is_dict d \<Longrightarrow> save_json float_repr fs path d = Inl AssertionError"
  by (simp add: save_json_def)

theorem save_json_not_dict_witness:
  "\<not> is_dict (PList [PInt 1])
   \<and> (\<forall>float_repr. save_json float_repr Map.empty ''f'' (PList [PInt 1]) = Inl AssertionError)"
  using save_json_not_dict [of "PList [PInt 1]" _ Map.empty "''f''"] by simp

lemma dump_nested_mixed:
  "json_dump float_repr (PDict [(KStr ''a'', PDict [(KInt 1, PInt 0), (KStr ''b'', PInt 0)])])
     = Inl TypeError"
  by code_simp

lemma dump_top_mixed:
  \<open>json_dump float_repr (PDict [(KStr ''1'', PInt 0), (KStr ''b'', PInt 0)])
     = Inr ''{\<newline>  "1": 0,\<newline>  "b": 0\<newline>}''\<close>
  by code_simp

text \<open>
  Claim C10.  \<open>stringify_keys\<close> rewrites the keys of the top-level mapping only: the
  nested mapping keeps its integer key \<open>1\<close> beside its string key \<open>b\<close>, the encoder
  cannot sort the two and \<open>save_json\<close> fails with \<^verbatim>\<open>TypeError\<close>.  The same two keys
  at the top level are encoded without error.
\<close>

theorem save_json_nested_mixed_keys:
  \<open>stringify_keys (PDict [(KStr ''a'', PDict [(KInt 1, PInt 0), (KStr ''b'', PInt 0)])])
     = Inr (PDict [(KStr ''a'', PDict [(KInt 1, PInt 0), (KStr ''b'', PInt 0)])])
   \<and> save_json float_repr fs path
        (PDict [(KStr ''a'', PDict [(KInt 1, PInt 0), (KStr ''b'', PInt 0)])])
     = Inl TypeError
   \<and> save_json float_repr fs path (PDict [(KInt 1, PInt 0), (KStr ''b'', PInt 0)])
     = Inr (fs(path \<mapsto> ''{\<newline>  "1": 0,\<newline>  "b": 0\<newline>}''))\<close>
proof -
  have "py_str 1 = ''1''"
    by code_simp
  then show ?thesis
    by (simp add: save_json_def stringify_keys_def dump_nested_mixed dump_top_mixed)
qed

section \<open>Small arrays\<close>
















section \<open>base64: decoding what was encoded\<close>

lemma index_of_nth: "distinct xs \<Longrightarrow> n < length xs \<Longrightarrow> index_of (xs ! n) xs = Some n"
proof (induction xs arbitrary: n)
  case Nil
  then show ?case by simp
next
  case (Cons x xs)
  show ?case
  proof (cases n)
    case 0
    then show ?thesis by simp
  next
    case (Suc m)
    with Cons.prems have "xs ! m \<noteq> x" "index_of (xs ! m) xs = Some m"
      using Cons.IH [of m] by auto
    with Suc show ?thesis by simp
  qed
qed

lemma length_b64_alphabet: "length b64_alphabet = 64"
  by (simp add: b64_alphabet_def)

lemma distinct_b64_alphabet: "distinct b64_alphabet"
  by (simp add: b64_alphabet_def)

lemma b64_val_chr: "n < 64 \<Longrightarrow> b64_val (b64_chr n) = Some n"
  by (simp add: b64_val_def b64_chr_def index_of_nth distinct_b64_alphabet length_b64_alphabet)

lemma b64_alphabet_chars: "c \<in> set b64_alphabet \<Longrightarrow> c \<noteq> CHR ''='' \<and> (of_char c :: nat) < 128"
  by (auto simp: b64_alphabet_def)

lemma b64_chr_props: "n < 64 \<Longrightarrow> b64_chr n \<noteq> CHR ''='' \<and> (of_char (b64_chr n) :: nat) < 128"
  by (rule b64_alphabet_chars) (simp add: b64_chr_def length_b64_alphabet)


lemma a2b_step0:
  "v < 64 \<Longrightarrow> a2b_base64 0 l p (b64_chr v # cs) = a2b_base64 (Suc 0) v 0 cs"
  by (simp add: b64_val_chr b64_chr_props)

lemma a2b_step1:
  "v < 64 \<Longrightarrow> a2b_base64 (Suc 0) l p (b64_chr v # cs)
     = cons_res (char_of (l * 4 + v div 16)) (a2b_base64 2 (v mod 16) 0 cs)"
  by (simp add: b64_val_chr b64_chr_props)

lemma a2b_step2:
  "v < 64 \<Longrightarrow> a2b_base64 2 l p (b64_chr v # cs)
     = cons_res (char_of (l * 16 + v div 4)) (a2b_base64 3 (v mod 4) 0 cs)"
  by (simp add: b64_val_chr b64_chr_props)

lemma a2b_step3:
  "v < 64 \<Longrightarrow> a2b_base64 3 l p (b64_chr v # cs)
     = cons_res (char_of (l * 64 + v)) (a2b_base64 0 0 0 cs)"
  by (simp add: b64_val_chr b64_chr_props)

lemma sb1: "(a::nat) < 256 \<Longrightarrow> a div 4 < 64" by arith
lemma sb2: "(b::nat) < 256 \<Longrightarrow> (a mod 4) * 16 + b div 16 < 64" by arith
lemma sb3: "(c::nat) < 256 \<Longrightarrow> (b mod 16) * 4 + c div 64 < 64" by arith
lemma sb5: "((a::nat) mod 4) * 16 < 64" by arith
lemma sb6: "((b::nat) mod 16) * 4 < 64" by arith

lemma split_div: "(y::nat) < n \<Longrightarrow> (x * n + y) div n = x"
  by simp
lemma split_mod: "(y::nat) < n \<Longrightarrow> (x * n + y) mod n = y"
  by simp
lemma d16: "(b::nat) < 256 \<Longrightarrow> b div 16 < 16" by arith
lemma d64: "(c::nat) < 256 \<Longrightarrow> c div 64 < 4" by arith

lemma sj1: "(b::nat) < 256 \<Longrightarrow> ((a mod 4) * 16 + b div 16) div 16 = a mod 4"
  by (simp add: split_div d16)
lemma sj2: "(b::nat) < 256 \<Longrightarrow> ((a mod 4) * 16 + b div 16) mod 16 = b div 16"
  by (simp add: split_mod d16)
lemma sj3: "(c::nat) < 256 \<Longrightarrow> ((b mod 16) * 4 + c div 64) div 4 = b mod 16"
  by (simp add: split_div d64)
lemma sj4: "(c::nat) < 256 \<Longrightarrow> ((b mod 16) * 4 + c div 64) mod 4 = c div 64"
  by (simp add: split_mod d64)
lemma sj5: "(a::nat) div 4 * 4 + a mod 4 = a" by simp
lemma sj8: "((a::nat) mod 4 * 16) div 16 = a mod 4" by simp
lemma sj9: "((b::nat) mod 16 * 4) div 4 = b mod 16" by simp


lemma a2b_pad2: "a2b_base64 2 l 0 (CHR ''='' # CHR ''='' # cs) = Inr []"
  by simp

lemma a2b_pad3: "a2b_base64 3 l 0 (CHR ''='' # cs) = Inr []"
  by simp

lemma dd16: "(b::nat) < 256 \<Longrightarrow> b div 16 div 16 = 0"
  by (simp add: d16)
lemma dm16: "(b::nat) < 256 \<Longrightarrow> b div 16 mod 16 = b div 16"
  by (simp add: d16)
lemma dd64: "(c::nat) < 256 \<Longrightarrow> c div 64 div 4 = 0"
  by (simp add: d64)
lemma dm64: "(c::nat) < 256 \<Longrightarrow> c div 64 mod 4 = c div 64"
  by (simp add: d64)

lemmas sextet_simps = sb1 sb2 sb3 sb5 sb6 sj1 sj2 sj3 sj4 sj8 sj9 dd16 dm16 dd64 dm64

lemma a2b_b64encode: "a2b_base64 0 0 0 (b64encode bs) = Inr bs"
proof (induction bs rule: b64encode.induct)
  case 1
  then show ?case by simp
next
  case (2 a)
  show ?case
    by (simp add: a2b_step0 a2b_step1 a2b_pad2 sextet_simps del: a2b_base64.simps)
next
  case (3 a b)
  show ?case
    by (simp add: a2b_step0 a2b_step1 a2b_step2 a2b_pad3 sextet_simps del: a2b_base64.simps)
next
  case (4 a b c rest)
  then show ?case
    by (simp add: a2b_step0 a2b_step1 a2b_step2 a2b_step3 sextet_simps
        del: a2b_base64.simps)
qed

lemma b64encode_ascii: "list_all (\<lambda>c. (of_char c :: nat) < 128) (b64encode bs)"
  by (induction bs rule: b64encode.induct) (simp_all add: b64_chr_props sextet_simps)

lemma b64decode_b64encode: "b64decode (b64encode bs) = Inr bs"
  by (simp add: b64decode_def b64encode_ascii a2b_b64encode)


end
